theory Spec2Isabelle
  imports Main "HOL-Library.Word" "HOL-Library.Char_ord" "HOL-Library.List_Lexorder"
begin

section \<open>Errors\<close>

text \<open>
  A Go \<open>error\<close> value. \<open>ErrCheckDisabled\<close> is the package variable
  \<open>errCheckDisabled\<close> of package health; \<open>ErrNew m\<close> is any other error value with
  message \<open>m\<close> (\<open>errors.New\<close>, \<open>fmt.Errorf\<close> without \<open>%w\<close>, an error of a
  library); \<open>ErrWrap m e\<close> is an error with message \<open>m\<close> that wraps \<open>e\<close>
  (\<open>fmt.Errorf\<close> with \<open>%w\<close>, \<open>errors.Wrap\<close>). A nil error is \<open>None\<close> of
  \<open>error option\<close>.
\<close>

datatype error = ErrCheckDisabled | ErrNew string | ErrWrap string error

fun Error_msg :: "error \<Rightarrow> string" where
  "Error_msg ErrCheckDisabled = ''error check disabled''"
| "Error_msg (ErrNew m) = m"
| "Error_msg (ErrWrap m e) = m"

text \<open>\<open>errors.Is(err, errCheckDisabled)\<close>: the chain of wrapped errors is searched.\<close>

fun errors_Is_disabled :: "error \<Rightarrow> bool" where
  "errors_Is_disabled ErrCheckDisabled = True"
| "errors_Is_disabled (ErrNew m) = False"
| "errors_Is_disabled (ErrWrap m e) = errors_Is_disabled e"

section \<open>Library functions used by package health\<close>

subsection \<open>strings\<close>

definition HasPrefix :: "string \<Rightarrow> string \<Rightarrow> bool" where
  "HasPrefix s p = (take (length p) s = p)"

definition TrimPrefix :: "string \<Rightarrow> string \<Rightarrow> string" where
  "TrimPrefix s p = (if HasPrefix s p then drop (length p) s else s)"

text \<open>
  \<open>strings.ToLower\<close> and \<open>strings.EqualFold\<close> on strings of ASCII bytes: the letters
  A to Z are mapped to a to z and every other byte is kept.
\<close>

definition lower_char :: "char \<Rightarrow> char" where
  "lower_char c =
     (case map_of (zip ''ABCDEFGHIJKLMNOPQRSTUVWXYZ'' ''abcdefghijklmnopqrstuvwxyz'') c of
        Some d \<Rightarrow> d
      | None \<Rightarrow> c)"

definition ToLower :: "string \<Rightarrow> string" where
  "ToLower s = map lower_char s"

definition EqualFold :: "string \<Rightarrow> string \<Rightarrow> bool" where
  "EqualFold s t = (map lower_char s = map lower_char t)"

text \<open>\<open>strings.Contains\<close>: \<open>sub\<close> occurs in \<open>s\<close> as a contiguous run of bytes.\<close>

fun Contains :: "string \<Rightarrow> string \<Rightarrow> bool" where
  "Contains [] sub = (sub = [])"
| "Contains (c # s) sub = (HasPrefix (c # s) sub \<or> Contains s sub)"

subsection \<open>strconv.Atoi\<close>

text \<open>
  \<open>strconv.Atoi\<close> on a platform whose \<open>int\<close> has 64 bits: an optional sign, then
  decimal digits read left to right into an unsigned 64-bit accumulator; a byte that is
  not a digit is a syntax error, an accumulator that would pass \<open>2^64 - 1\<close> a range
  error, whichever comes first; at the end the value must fit a signed 64-bit integer.
  The error message quotes the input; the quoting is written here for inputs without
  quotes, backslashes and unprintable bytes.
\<close>

datatype num_error = ErrSyntax | ErrRange

definition is_digit :: "char \<Rightarrow> bool" where
  "is_digit c = (CHR ''0'' \<le> c \<and> c \<le> CHR ''9'')"

definition digit_val :: "char \<Rightarrow> nat" where
  "digit_val c = of_char c - of_char (CHR ''0'')"

fun parse_digits :: "string \<Rightarrow> nat \<Rightarrow> num_error + nat" where
  "parse_digits [] n = Inr n"
| "parse_digits (c # cs) n =
     (if \<not> is_digit c then Inl ErrSyntax
      else if n \<ge> (2 ^ 64 - 1) div 10 + 1 then Inl ErrRange
      else if n * 10 + digit_val c > 2 ^ 64 - 1 then Inl ErrRange
      else parse_digits cs (n * 10 + digit_val c))"

definition ParseUint :: "string \<Rightarrow> num_error + nat" where
  "ParseUint s = (if s = [] then Inl ErrSyntax else parse_digits s 0)"

definition ParseInt :: "string \<Rightarrow> num_error + int" where
  "ParseInt s0 =
     (if s0 = [] then Inl ErrSyntax
      else
        let neg = (hd s0 = CHR ''-'');
            s = (if hd s0 = CHR ''+'' \<or> hd s0 = CHR ''-'' then tl s0 else s0)
        in case ParseUint s of
             Inl ErrSyntax \<Rightarrow> Inl ErrSyntax
           | Inl ErrRange \<Rightarrow> Inl ErrRange
           | Inr un \<Rightarrow>
               if \<not> neg \<and> un \<ge> 2 ^ 63 then Inl ErrRange
               else if neg \<and> un > 2 ^ 63 then Inl ErrRange
               else Inr (if neg then - int un else int un))"

definition num_error_msg :: "string \<Rightarrow> num_error \<Rightarrow> string" where
  \<open>num_error_msg s e =
     ''strconv.Atoi: parsing "'' @ s @ ''": '' @
     (case e of ErrSyntax \<Rightarrow> ''invalid syntax'' | ErrRange \<Rightarrow> ''value out of range'')\<close>

definition Atoi :: "string \<Rightarrow> error + int" where
  "Atoi s = (case ParseInt s of
               Inl e \<Rightarrow> Inl (ErrNew (num_error_msg s e))
             | Inr n \<Rightarrow> Inr n)"

subsection \<open>Conversions between Go's 64-bit integer types\<close>

text \<open>
  Go's \<open>int\<close> and \<open>int64\<close> are modelled as \<open>int\<close> and \<open>uint\<close> and \<open>uint64\<close> as
  \<open>nat\<close>, with the wrap-around of a conversion or an operation written out.
\<close>

definition wrap_int64 :: "int \<Rightarrow> int" where
  "wrap_int64 x = (x + 2 ^ 63) mod 2 ^ 64 - 2 ^ 63"

definition uint_of_int :: "int \<Rightarrow> nat" where
  "uint_of_int x = nat (x mod 2 ^ 64)"

definition int_of_uint64 :: "nat \<Rightarrow> int" where
  "int_of_uint64 n = wrap_int64 (int n)"

text \<open>The verb \<open>%d\<close> of package fmt: an integer in decimal.\<close>

fun show_nat :: "nat \<Rightarrow> string" where
  "show_nat n =
     (if n < 10 then [''0123456789'' ! n]
      else show_nat (n div 10) @ [''0123456789'' ! (n mod 10)])"

definition show_int :: "int \<Rightarrow> string" where
  "show_int i = (if i < 0 then ''-'' @ show_nat (nat (- i)) else show_nat (nat i))"

subsection \<open>net/http: the response writer\<close>

text \<open>
  The part of an \<open>http.ResponseWriter\<close> a client observes: the status code, once it is
  written, and the bytes of the body. \<open>WriteHeader\<close> after the status is written is
  ignored, and \<open>Write\<close> before any \<open>WriteHeader\<close> writes status 200 first. A failing
  \<open>Write\<close> (a closed connection) is not modelled.
\<close>

record response_writer =
  rw_status :: "nat option"
  rw_body :: string

definition new_writer :: response_writer where
  "new_writer = \<lparr>rw_status = None, rw_body = []\<rparr>"

definition StatusOK :: nat where "StatusOK = 200"
definition StatusInternalServerError :: nat where "StatusInternalServerError = 500"

definition WriteHeader :: "nat \<Rightarrow> response_writer \<Rightarrow> response_writer" where
  "WriteHeader code w = (case rw_status w of None \<Rightarrow> w\<lparr>rw_status := Some code\<rparr> | Some _ \<Rightarrow> w)"

definition Write :: "string \<Rightarrow> response_writer \<Rightarrow> response_writer" where
  "Write bs w = (let w' = WriteHeader StatusOK w in w'\<lparr>rw_body := rw_body w' @ bs\<rparr>)"

subsection \<open>encoding/json: marshalling a map of strings\<close>

text \<open>
  \<open>json.Marshal\<close> of a \<open>map[string]string\<close>: the keys in sorted order, keys and values
  as JSON strings. In a JSON string the quote and the backslash are escaped with a
  backslash, newline, carriage return and tab as \<open>\n\<close>, \<open>\r\<close>, \<open>\t\<close>, and every
  other byte below 0x20 and the three characters \<open><\<close>, \<open>>\<close>, \<open>&\<close> as \<open>\u00XX\<close>.
  Bytes from 0x80 are copied, which is what the library does with valid UTF-8 other than
  U+2028 and U+2029.
\<close>

definition hex_digit :: "nat \<Rightarrow> char" where
  "hex_digit n = ''0123456789abcdef'' ! (n mod 16)"

definition json_escape :: "char \<Rightarrow> string" where
  \<open>json_escape c =
     (if c = CHR 0x22 then [CHR 0x5C, CHR 0x22]
      else if c = CHR 0x5C then [CHR 0x5C, CHR 0x5C]
      else if c = CHR 0x0A then [CHR 0x5C, CHR ''n'']
      else if c = CHR 0x0D then [CHR 0x5C, CHR ''r'']
      else if c = CHR 0x09 then [CHR 0x5C, CHR ''t'']
      else if (of_char c :: nat) < 32 \<or> c = CHR ''<'' \<or> c = CHR ''>'' \<or> c = CHR ''&''
        then [CHR 0x5C, CHR ''u'', CHR ''0'', CHR ''0'',
              hex_digit (of_char c div 16), hex_digit (of_char c)]
      else [c])\<close>

definition json_string :: "string \<Rightarrow> string" where
  \<open>json_string s = [CHR 0x22] @ concat (map json_escape s) @ [CHR 0x22]\<close>

definition json_member :: "string \<times> string \<Rightarrow> string" where
  "json_member kv = json_string (fst kv) @ '':'' @ json_string (snd kv)"

fun join_comma :: "string list \<Rightarrow> string" where
  "join_comma [] = []"
| "join_comma [x] = x"
| "join_comma (x # y # zs) = x @ '','' @ join_comma (y # zs)"

text \<open>A Go map is an association list with one entry for each key; an assignment
  \<open>m[k] = v\<close> is \<open>map_set\<close>.\<close>

definition map_set :: "string \<Rightarrow> string \<Rightarrow> (string \<times> string) list \<Rightarrow> (string \<times> string) list" where
  "map_set k v m = (k, v) # filter (\<lambda>kv. fst kv \<noteq> k) m"

definition json_Marshal :: "(string \<times> string) list \<Rightarrow> string" where
  "json_Marshal m = ''{'' @ join_comma (map json_member (sort_key fst m)) @ ''}''"

section \<open>Package health (cmd/rpcdaemon/health)\<close>

subsection \<open>Reporting\<close>

definition shouldChangeStatusCode :: "error option \<Rightarrow> bool" where
  "shouldChangeStatusCode err = (case err of None \<Rightarrow> False | Some e \<Rightarrow> \<not> errors_Is_disabled e)"

definition errorStringOrOK :: "error option \<Rightarrow> string" where
  "errorStringOrOK err =
     (case err of
        None \<Rightarrow> ''HEALTHY''
      | Some e \<Rightarrow> if errors_Is_disabled e then ''DISABLED'' else ''ERROR: '' @ Error_msg e)"

definition reportHealth ::
  "error option \<Rightarrow> error option \<Rightarrow> error option \<Rightarrow> response_writer \<Rightarrow> response_writer" where
  "reportHealth errParse errMinPeerCount errCheckBlock w =
     (let statusCode = StatusOK;
          errors = [];
          statusCode = (if shouldChangeStatusCode errParse
                        then StatusInternalServerError else statusCode);
          errors = map_set ''healthcheck_query'' (errorStringOrOK errParse) errors;
          statusCode = (if shouldChangeStatusCode errMinPeerCount
                        then StatusInternalServerError else statusCode);
          errors = map_set ''min_peer_count'' (errorStringOrOK errMinPeerCount) errors;
          statusCode = (if shouldChangeStatusCode errCheckBlock
                        then StatusInternalServerError else statusCode);
          errors = map_set ''check_block'' (errorStringOrOK errCheckBlock) errors;
          w1 = WriteHeader statusCode w
      in Write (json_Marshal errors) w1)"

subsection \<open>The collaborators of a health check\<close>

text \<open>
  \<open>checkMinPeers\<close> and \<open>checkBlockNumber\<close> (package health) and the net and eth APIs
  that \<open>parseAPI\<close> selects are declared outside the files verified here. Their results
  on one request are the fields of \<open>health_env\<close>: what \<open>checkMinPeers\<close> and
  \<open>checkBlockNumber\<close> return for each argument, what \<open>ethAPI.Syncing\<close> and
  \<open>ethAPI.GetBlockByNumber\<close> of the latest block return (\<open>Inl\<close> the message of the
  error), the clock \<open>time.Now().Unix()\<close>, and the result of \<open>json.Unmarshal\<close> into a
  \<open>requestBody\<close> for each byte string. Errors of libraries and of the APIs are errors
  of other packages, which cannot be or wrap the unexported \<open>errCheckDisabled\<close>; they
  are \<open>ErrNew\<close> of their message.
\<close>

datatype go_value = U64 nat | OtherValue

datatype syncing_value = SyncNil | SyncBool bool | SyncOther

record requestBody =
  MinPeerCount :: "nat option"
  BlockNumber :: "int option"

record health_env =
  checkMinPeers :: "nat \<Rightarrow> error option"
  checkBlockNumber :: "int \<Rightarrow> error option"
  Syncing :: "string + syncing_value"
  GetBlockByNumber :: "string + (string \<rightharpoonup> go_value)"
  time_Now_Unix :: int
  json_Unmarshal :: "string \<Rightarrow> string + requestBody"

text \<open>The calls a request makes to its collaborators, in order.\<close>

datatype api_call =
  CallSyncing
| CallGetBlockByNumber
| CallCheckBlockNumber int
| CallCheckMinPeers nat

type_synonym check_result = "error option \<times> api_call list"

text \<open>Sequencing with \<open>if err != nil { return err }\<close>: the second step runs only when
  the first returned nil.\<close>

definition then_check :: "check_result \<Rightarrow> check_result \<Rightarrow> check_result" where
  "then_check a b = (case fst a of Some e \<Rightarrow> a | None \<Rightarrow> (fst b, snd a @ snd b))"

definition no_check :: check_result where
  "no_check = (None, [])"

subsection \<open>The checks selected by headers\<close>

definition processSyncedCheck :: "health_env \<Rightarrow> check_result" where
  "processSyncedCheck env =
     (case Syncing env of
        Inl m \<Rightarrow> (Some (ErrNew m), [CallSyncing])
      | Inr i \<Rightarrow>
          if i = SyncNil \<or> i = SyncBool False then (None, [CallSyncing])
          else (Some (ErrNew ''not synced''), [CallSyncing]))"

definition processTimeCheck :: "health_env \<Rightarrow> int \<Rightarrow> check_result" where
  "processTimeCheck env seconds =
     (case GetBlockByNumber env of
        Inl m \<Rightarrow> (Some (ErrNew m), [CallGetBlockByNumber])
      | Inr i \<Rightarrow>
          let timestamp = (case i ''timestamp'' of
                             Some (U64 cs) \<Rightarrow> int_of_uint64 cs
                           | _ \<Rightarrow> 0)
          in if timestamp > seconds
             then (Some (ErrNew (''got ts: '' @ show_int timestamp @ '', need: '' @ show_int seconds)),
                   [CallGetBlockByNumber])
             else (None, [CallGetBlockByNumber]))"

definition synced_branch :: "health_env \<Rightarrow> string \<Rightarrow> check_result" where
  "synced_branch env header =
     (if header = ''synced'' then processSyncedCheck env else no_check)"

definition check_block_branch :: "health_env \<Rightarrow> string \<Rightarrow> check_result" where
  "check_block_branch env header =
     (if HasPrefix header ''check_block'' then
        (case Atoi (TrimPrefix header ''check_block'') of
           Inl err \<Rightarrow> (Some err, [])
         | Inr blockNumber \<Rightarrow>
             (checkBlockNumber env blockNumber, [CallCheckBlockNumber blockNumber]))
      else no_check)"

definition min_peer_count_branch :: "health_env \<Rightarrow> string \<Rightarrow> check_result" where
  "min_peer_count_branch env header =
     (if HasPrefix header ''min_peer_count'' then
        (case Atoi (TrimPrefix header ''min_peer_count'') of
           Inl err \<Rightarrow> (Some err, [])
         | Inr minPeers \<Rightarrow>
             (checkMinPeers env (uint_of_int minPeers),
              [CallCheckMinPeers (uint_of_int minPeers)]))
      else no_check)"

definition max_seconds_behind_branch :: "health_env \<Rightarrow> string \<Rightarrow> check_result" where
  "max_seconds_behind_branch env header =
     (if HasPrefix header ''max_seconds_behind'' then
        (case Atoi (TrimPrefix header ''max_seconds_behind'') of
           Inl err \<Rightarrow> (Some err, [])
         | Inr secs0 \<Rightarrow>
             let secs = (if secs0 < 0 then 600 else secs0);
                 now = time_Now_Unix env
             in processTimeCheck env (wrap_int64 (now - secs)))
      else no_check)"

text \<open>
  The loop of \<open>ProcessHealthcheck2\<close> in cmd/rpcdaemon/health/health.go: three branches
  for each header value.
\<close>

definition process_header :: "health_env \<Rightarrow> string \<Rightarrow> check_result" where
  "process_header env header0 =
     (let header = ToLower header0
      in then_check (synced_branch env header)
           (then_check (check_block_branch env header)
              (min_peer_count_branch env header)))"

fun ProcessHealthcheck2 :: "health_env \<Rightarrow> string list \<Rightarrow> check_result" where
  "ProcessHealthcheck2 env [] = no_check"
| "ProcessHealthcheck2 env (header # headers) =
     then_check (process_header env header) (ProcessHealthcheck2 env headers)"

text \<open>
  The later version of the same file (the unnamed part 001) adds the fourth branch,
  \<open>max_seconds_behind\<close>.
\<close>

definition process_header_v2 :: "health_env \<Rightarrow> string \<Rightarrow> check_result" where
  "process_header_v2 env header0 =
     (let header = ToLower header0
      in then_check (synced_branch env header)
           (then_check (check_block_branch env header)
              (then_check (min_peer_count_branch env header)
                 (max_seconds_behind_branch env header))))"

fun ProcessHealthcheck2_v2 :: "health_env \<Rightarrow> string list \<Rightarrow> check_result" where
  "ProcessHealthcheck2_v2 env [] = no_check"
| "ProcessHealthcheck2_v2 env (header # headers) =
     then_check (process_header_v2 env header) (ProcessHealthcheck2_v2 env headers)"

subsection \<open>The handler\<close>

text \<open>
  A request, as far as the handler reads it: the path of the URL, the values of the
  header \<open>X-ERIGON-HEALTHCHECK\<close> in order, and what \<open>io.ReadAll\<close> of the body returns
  (\<open>Inl\<close> the message of a read error).
\<close>

record request =
  URL_Path :: string
  healthHeader_values :: "string list"
  Body_ReadAll :: "string + string"

definition urlPath :: string where
  "urlPath = ''/health''"

text \<open>\<open>r.Header.Get\<close>: the first value of the header, or the empty string.\<close>

definition Header_Get :: "request \<Rightarrow> string" where
  "Header_Get r = (case healthHeader_values r of [] \<Rightarrow> [] | v # _ \<Rightarrow> v)"

definition parseHealthCheckBody :: "health_env \<Rightarrow> string + string \<Rightarrow> error + requestBody" where
  "parseHealthCheckBody env reader =
     (case reader of
        Inl m \<Rightarrow> Inl (ErrNew m)
      | Inr bodyBytes \<Rightarrow>
          (case json_Unmarshal env bodyBytes of
             Inl m \<Rightarrow> Inl (ErrNew m)
           | Inr body \<Rightarrow> Inr body))"

text \<open>
  What \<open>ProcessHealthcheckIfNeeded\<close> does on a request: its return value, the response
  written and the calls made to the collaborators. The warnings it logs are left out.
\<close>

record outcome =
  handled :: bool
  response :: response_writer
  calls :: "api_call list"

definition ProcessHealthcheckIfNeeded_with ::
  "(health_env \<Rightarrow> string list \<Rightarrow> check_result) \<Rightarrow> health_env \<Rightarrow> request \<Rightarrow> outcome" where
  "ProcessHealthcheckIfNeeded_with processHeaders env r =
     (let w = new_writer in
      if \<not> EqualFold (URL_Path r) urlPath then
        \<lparr>handled = False, response = w, calls = []\<rparr>
      else if Header_Get r \<noteq> [] then
        (let res = processHeaders env (healthHeader_values r);
             err = fst res;
             w1 = (if err \<noteq> None then WriteHeader StatusInternalServerError w else w);
             w2 = Write (errorStringOrOK err) w1
         in \<lparr>handled = True, response = w2, calls = snd res\<rparr>)
      else
        (let errMinPeerCount = Some ErrCheckDisabled;
             errCheckBlock = Some ErrCheckDisabled
         in case parseHealthCheckBody env (Body_ReadAll r) of
              Inl errParse \<Rightarrow>
                \<lparr>handled = True,
                 response = reportHealth (Some errParse) errMinPeerCount errCheckBlock w,
                 calls = []\<rparr>
            | Inr body \<Rightarrow>
                (let minRes = (case MinPeerCount body of
                                 Some n \<Rightarrow> (checkMinPeers env n, [CallCheckMinPeers n])
                               | None \<Rightarrow> (errMinPeerCount, []));
                     blockRes = (case BlockNumber body of
                                   Some b \<Rightarrow> (checkBlockNumber env b, [CallCheckBlockNumber b])
                                 | None \<Rightarrow> (errCheckBlock, []))
                 in \<lparr>handled = True,
                     response = reportHealth None (fst minRes) (fst blockRes) w,
                     calls = snd minRes @ snd blockRes\<rparr>)))"

text \<open>The handler of cmd/rpcdaemon/health/health.go and the one of the later version.\<close>

definition ProcessHealthcheckIfNeeded :: "health_env \<Rightarrow> request \<Rightarrow> outcome" where
  "ProcessHealthcheckIfNeeded = ProcessHealthcheckIfNeeded_with ProcessHealthcheck2"

definition ProcessHealthcheckIfNeeded_v2 :: "health_env \<Rightarrow> request \<Rightarrow> outcome" where
  "ProcessHealthcheckIfNeeded_v2 = ProcessHealthcheckIfNeeded_with ProcessHealthcheck2_v2"

section \<open>Package sentinel (cmd/lightclient/sentinel)\<close>

subsection \<open>net.IP\<close>

text \<open>An IP address is a slice of bytes; the nil slice is the empty list.\<close>

type_synonym IP = "8 word list"

definition v4InV6Prefix :: IP where
  "v4InV6Prefix = [0, 0, 0, 0, 0, 0, 0, 0, 0, 0, 0xff, 0xff]"

definition IPv4 :: "8 word \<Rightarrow> 8 word \<Rightarrow> 8 word \<Rightarrow> 8 word \<Rightarrow> IP" where
  "IPv4 a b c d = v4InV6Prefix @ [a, b, c, d]"

definition IPv4zero :: IP where
  "IPv4zero = IPv4 0 0 0 0"

definition IPv6zero :: IP where
  "IPv6zero = replicate 16 0"

definition isZeros :: "IP \<Rightarrow> bool" where
  "isZeros p = list_all (\<lambda>b. b = 0) p"

definition To4 :: "IP \<Rightarrow> IP" where
  "To4 ip =
     (if length ip = 4 then ip
      else if length ip = 16 \<and> isZeros (take 10 ip) \<and> ip ! 10 = 0xff \<and> ip ! 11 = 0xff
        then drop 12 ip
      else [])"

definition To16 :: "IP \<Rightarrow> IP" where
  "To16 ip =
     (if length ip = 4 then IPv4 (ip ! 0) (ip ! 1) (ip ! 2) (ip ! 3)
      else if length ip = 16 then ip
      else [])"

subsection \<open>The sentinel and its collaborators\<close>

text \<open>
  The fields of \<open>Sentinel\<close> that \<open>createListener\<close>, \<open>Start\<close> and \<open>GetPeersCount\<close>
  read or write. A pointer that may be nil is an option. The map of subscriptions is the
  list of its entries in the order in which \<open>range\<close> visits them on this call (Go fixes
  no order); \<open>topic_ListPeers\<close> of a subscription is what \<open>sub.topic.ListPeers()\<close>
  returns and \<open>host_Peers\<close> what \<open>s.host.Network().Peers()\<close> returns.
\<close>

type_synonym peer_id = nat

record SentinelConfig =
  IpAddr :: string
  Port :: int
  TCPPort :: nat

record GossipSubscription =
  topic_ListPeers :: "peer_id list"

record GossipManager =
  subscriptions :: "(string \<times> GossipSubscription option) list"

record MetadataV2 =
  SeqNumber :: "64 word"
  Attnets :: "64 word"
  Syncnets :: "64 word"

datatype UDPv5 = UDPv5 string IP int

record Sentinel =
  started :: bool
  listener :: "UDPv5 option"
  cfg :: SentinelConfig
  host_Peers :: "peer_id list"
  metadataV1 :: "MetadataV2 option"
  subManager :: "GossipManager option"

text \<open>
  What the library and the other files of the package return during one start:
  \<open>net.ParseIP\<close> for each string, \<open>net.ListenUDP\<close> for a network, address and port,
  \<open>enode.OpenDB\<close>, the sequence number of the new local node, \<open>discover.ListenV5\<close>
  and \<open>connectToBootnodes\<close> (\<open>Some\<close> the message of the error, \<open>None\<close> for nil).
\<close>

record sentinel_env =
  net_ParseIP :: "string \<Rightarrow> IP"
  net_ListenUDP :: "string \<Rightarrow> IP \<Rightarrow> int \<Rightarrow> string option"
  enode_OpenDB :: "string option"
  localNode_Seq :: "64 word"
  discover_ListenV5 :: "string option"
  connectToBootnodes :: "string option"

text \<open>The effects of a start, in order.\<close>

datatype start_event =
  EvLogWarn string
| EvListenUDP string IP int
| EvOpenDB
| EvHandlersStart
| EvListenV5
| EvConnectToBootnodes
| EvGoListenForPeers

definition createLocalNode :: "sentinel_env \<Rightarrow> error option \<times> start_event list" where
  "createLocalNode env =
     (case enode_OpenDB env of
        Some m \<Rightarrow>
          (Some (ErrWrap (''could not open node's peer database: '' @ m) (ErrNew m)), [EvOpenDB])
      | None \<Rightarrow> (None, [EvOpenDB]))"

definition createListener ::
  "sentinel_env \<Rightarrow> Sentinel \<Rightarrow> (error + UDPv5) \<times> Sentinel \<times> start_event list" where
  "createListener env s =
     (let ipAddr = IpAddr (cfg s);
          port = Port (cfg s);
          ip = net_ParseIP env ipAddr
      in if To4 ip = [] then
           (Inl (ErrNew (''IPV4 address not provided instead '' @ ipAddr @ '' was provided'')),
            s, [])
         else
           (case (if To16 ip \<noteq> [] \<and> To4 ip = [] then Some (IPv6zero, ''udp6'')
                  else if To4 ip \<noteq> [] then Some (IPv4zero, ''udp4'')
                  else None) of
              None \<Rightarrow>
                (Inl (ErrNew (''bad ip address provided, '' @ ipAddr @ '' was provided'')), s, [])
            | Some (bindIP, networkVersion) \<Rightarrow>
                (case net_ListenUDP env networkVersion bindIP port of
                   Some m \<Rightarrow> (Inl (ErrNew m), s, [EvListenUDP networkVersion bindIP port])
                 | None \<Rightarrow>
                     (case createLocalNode env of
                        (Some err, evs) \<Rightarrow>
                          (Inl err, s, [EvListenUDP networkVersion bindIP port] @ evs)
                      | (None, evs) \<Rightarrow>
                          (let s1 = s\<lparr>metadataV1 :=
                                         Some \<lparr>SeqNumber = localNode_Seq env,
                                               Attnets = 0, Syncnets = 0\<rparr>\<rparr>;
                               evs1 = [EvListenUDP networkVersion bindIP port] @ evs
                                        @ [EvHandlersStart, EvListenV5]
                           in case discover_ListenV5 env of
                                Some m \<Rightarrow> (Inl (ErrNew m), s1, evs1)
                              | None \<Rightarrow>
                                  (Inr (UDPv5 networkVersion bindIP port), s1, evs1))))))"

definition Start :: "sentinel_env \<Rightarrow> Sentinel \<Rightarrow> error option \<times> Sentinel \<times> start_event list" where
  "Start env s =
     (let evs0 = (if started s then [EvLogWarn ''Sentinel already running''] else [])
      in case createListener env s of
           (Inl err, s1, evs) \<Rightarrow>
             (Some (ErrWrap (''failed creating sentinel listener err='' @ Error_msg err) err),
              s1\<lparr>listener := None\<rparr>, evs0 @ evs)
         | (Inr l, s1, evs) \<Rightarrow>
             (let s2 = s1\<lparr>listener := Some l\<rparr>
              in case connectToBootnodes env of
                   Some m \<Rightarrow>
                     (Some (ErrWrap (''failed to connect to bootnodes err='' @ m) (ErrNew m)),
                      s2, evs0 @ evs @ [EvConnectToBootnodes])
                 | None \<Rightarrow>
                     (None, s2\<lparr>subManager := Some \<lparr>subscriptions = []\<rparr>\<rparr>,
                      evs0 @ evs @ [EvConnectToBootnodes, EvGoListenForPeers])))"

subsection \<open>GetPeersCount\<close>

text \<open>
  The constant \<open>LightClientFinalityUpdateTopic\<close> is declared in another file of the
  package and is a parameter here. Reading \<open>s.subManager.subscriptions\<close> through a nil
  \<open>subManager\<close> panics.
\<close>

datatype panic = NilPointerDereference

fun find_sub ::
  "string \<Rightarrow> (string \<times> GossipSubscription option) list \<Rightarrow> GossipSubscription option
   \<Rightarrow> GossipSubscription option" where
  "find_sub name [] sub = sub"
| "find_sub name ((topic, currSub) # rest) sub =
     find_sub name rest (if Contains topic name then currSub else sub)"

definition GetPeersCount :: "string \<Rightarrow> Sentinel \<Rightarrow> panic + nat" where
  "GetPeersCount LightClientFinalityUpdateTopic s =
     (case subManager s of
        None \<Rightarrow> Inl NilPointerDereference
      | Some m \<Rightarrow>
          (case find_sub LightClientFinalityUpdateTopic (subscriptions m) None of
             None \<Rightarrow> Inr (length (host_Peers s))
           | Some sub \<Rightarrow> Inr (length (topic_ListPeers sub))))"

subsection \<open>The outbound ping\<close>

text \<open>
  What the peer, the host and the stream codec (package \<open>ssz_snappy\<close>, outside the files
  verified here) return during one \<open>pingRequest\<close>: \<open>connectToRandomPeer\<close> (the peer
  or the message of the error), \<open>host.NewStream\<close>, \<open>WritePacket\<close> (the size written
  and the error), \<open>CloseWrite\<close>, \<open>ReadByte\<close> (the byte and the error) and \<open>Decode\<close>
  (the ping it stores into its argument, or the error).
\<close>

record Ping =
  Id :: "64 word"

record ping_env =
  connectToRandomPeer :: "string + peer_id"
  host_NewStream :: "peer_id \<Rightarrow> string option"
  sc_WritePacket :: "Ping \<Rightarrow> int \<times> string option"
  stream_CloseWrite :: "string option"
  sc_ReadByte :: "8 word \<times> string option"
  sc_Decode :: "string + Ping"

text \<open>The effects of a ping in order: the calls on the stream and the log lines.\<close>

datatype ping_event =
  LogWarn string
| LogInfoSent peer_id
| LogInfoResp peer_id "8 word" "64 word"
| NewStream peer_id
| WritePacket Ping
| CloseWrite
| ReadByte
| Decode
| StreamClose

text \<open>The statements of \<open>pingRequest\<close> after \<open>defer stream.Close()\<close>.\<close>

definition ping_exchange :: "ping_env \<Rightarrow> peer_id \<Rightarrow> Ping \<Rightarrow> ping_event list" where
  "ping_exchange env peer pingPacket =
     (case sc_WritePacket env pingPacket of
        (n, Some m) \<Rightarrow>
          [WritePacket pingPacket, LogWarn ''failed to write ping request packet'']
      | (n, None) \<Rightarrow>
          if n \<noteq> 8 then [WritePacket pingPacket, LogWarn ''wrong ping packet size'']
          else
            (let evs1 = [WritePacket pingPacket, CloseWrite]
                   @ (case stream_CloseWrite env of
                        Some m \<Rightarrow> [LogWarn ''fail close ping request write '']
                      | None \<Rightarrow> [])
                   @ [LogInfoSent peer];
                 rping = \<lparr>Id = 0\<rparr>;
                 code = fst (sc_ReadByte env);
                 evs2 = evs1 @ [ReadByte]
                   @ (case snd (sc_ReadByte env) of
                        Some m \<Rightarrow> [LogWarn ''fail read response code'']
                      | None \<Rightarrow> [])
             in if code = 1 then
                  (case sc_Decode env of
                     Inl m \<Rightarrow> evs2 @ [Decode, LogWarn ''fail decode ping response'']
                   | Inr p \<Rightarrow> evs2 @ [Decode, LogInfoResp peer code (Id p)])
                else evs2 @ [LogInfoResp peer code (Id rping)]))"

text \<open>
  \<open>pingRequest\<close>: the deferred \<open>stream.Close()\<close> runs when the function returns, on
  whichever path, once the stream is open.
\<close>

definition pingRequest :: "ping_env \<Rightarrow> ping_event list" where
  "pingRequest env =
     (let pingPacket = \<lparr>Id = 1\<rparr>
      in case connectToRandomPeer env of
           Inl m \<Rightarrow> [LogWarn ''Failed to ping request'']
         | Inr peer \<Rightarrow>
             (case host_NewStream env peer of
                Some m \<Rightarrow> [LogWarn ''failed to create stream to send ping request'']
              | None \<Rightarrow> [NewStream peer] @ ping_exchange env peer pingPacket @ [StreamClose]))"

section \<open>Notions and inputs used by the properties\<close>

text \<open>
  The JSON text of the value that \<open>reportHealth\<close> stores for a check whose result is
  \<open>e\<close>: the string HEALTHY for nil, DISABLED for the sentinel, and otherwise ERROR
  followed by the message of the error.
\<close>

definition check_value :: "error option \<Rightarrow> string \<Rightarrow> bool" where
  \<open>check_value e v =
     (case e of
        None \<Rightarrow> v = ''"HEALTHY"''
      | Some x \<Rightarrow>
          if errors_Is_disabled x then v = ''"DISABLED"''
          else v = ''"ERROR: '' @ concat (map json_escape (Error_msg x)) @ ''"'')\<close>

text \<open>
  The results of the three checks of a request in JSON-body mode. The result of
  healthcheck_query is the result of reading and parsing the body. The results of
  min_peer_count and check_block are what \<open>checkMinPeers\<close> and \<open>checkBlockNumber\<close>
  return for the value the body gives, and the disabled sentinel for a check the body
  does not ask for or when the body does not parse.
\<close>

definition json_mode_checks ::
  "health_env \<Rightarrow> request \<Rightarrow> error option \<times> error option \<times> error option" where
  "json_mode_checks env r =
     (case parseHealthCheckBody env (Body_ReadAll r) of
        Inl e \<Rightarrow> (Some e, Some ErrCheckDisabled, Some ErrCheckDisabled)
      | Inr body \<Rightarrow>
          (None,
           (case MinPeerCount body of
              Some n \<Rightarrow> checkMinPeers env n | None \<Rightarrow> Some ErrCheckDisabled),
           (case BlockNumber body of
              Some b \<Rightarrow> checkBlockNumber env b | None \<Rightarrow> Some ErrCheckDisabled)))"

text \<open>The subscriptions whose topic contains the given name, in the order visited.\<close>

definition matching_subs ::
  "string \<Rightarrow> (string \<times> GossipSubscription option) list \<Rightarrow> (string \<times> GossipSubscription option) list" where
  "matching_subs name subs = filter (\<lambda>entry. Contains (fst entry) name) subs"

text \<open>
  A node with three peers connected: \<open>checkMinPeers\<close> fails for a minimum above 3.
  The latest block has timestamp 1700000000 and the clock is 100 seconds later.
\<close>

definition three_peers_env :: health_env where
  "three_peers_env =
     \<lparr>checkMinPeers = (\<lambda>n. if 3 < n
          then Some (ErrNew (''not enough peers: 3 (minimum '' @ show_nat n @ '')''))
          else None),
      checkBlockNumber = (\<lambda>b. None),
      Syncing = Inr (SyncBool False),
      GetBlockByNumber = Inr [''timestamp'' \<mapsto> U64 1700000000],
      time_Now_Unix = 1700000100,
      json_Unmarshal = (\<lambda>b. if b = [] then Inl ''unexpected end of JSON input''
                             else if b = ''{}'' then Inr \<lparr>MinPeerCount = None, BlockNumber = None\<rparr>
                             else Inl ''invalid character'')\<rparr>"

definition latest_block_env :: "nat \<Rightarrow> int \<Rightarrow> health_env" where
  "latest_block_env ts now =
     \<lparr>checkMinPeers = (\<lambda>n. None),
      checkBlockNumber = (\<lambda>b. None),
      Syncing = Inr (SyncBool False),
      GetBlockByNumber = Inr [''timestamp'' \<mapsto> U64 ts],
      time_Now_Unix = now,
      json_Unmarshal = (\<lambda>b. Inl ''unexpected end of JSON input'')\<rparr>"

text \<open>A request for \<open>/health\<close> with the given values of the health header and an
  empty body.\<close>

definition health_request :: "string list \<Rightarrow> request" where
  "health_request hs = \<lparr>URL_Path = ''/health'', healthHeader_values = hs, Body_ReadAll = Inr []\<rparr>"

text \<open>The same node, asked with the JSON body for a minimum of 5 peers.\<close>

definition min_peers_body_env :: health_env where
  \<open>min_peers_body_env =
     three_peers_env\<lparr>json_Unmarshal :=
       (\<lambda>b. if b = ''{"min_peer_count":5}''
            then Inr \<lparr>MinPeerCount = Some 5, BlockNumber = None\<rparr>
            else Inl ''invalid character'')\<rparr>\<close>

definition min_peers_body_request :: request where
  \<open>min_peers_body_request =
     \<lparr>URL_Path = ''/health'', healthHeader_values = [],
      Body_ReadAll = Inr ''{"min_peer_count":5}''\<rparr>\<close>

text \<open>
  A peer that accepts the stream, takes the 8 bytes of the request and answers with the
  given status byte and a frame that decodes to the ping sent; and the same peer behind a
  codec that reports 7 bytes written.
\<close>

definition echo_peer :: "8 word \<Rightarrow> ping_env" where
  "echo_peer status =
     \<lparr>connectToRandomPeer = Inr 7,
      host_NewStream = (\<lambda>p. None),
      sc_WritePacket = (\<lambda>p. (8, None)),
      stream_CloseWrite = None,
      sc_ReadByte = (status, None),
      sc_Decode = Inr \<lparr>Id = 1\<rparr>\<rparr>"

definition short_write_peer :: ping_env where
  "short_write_peer = (echo_peer 0)\<lparr>sc_WritePacket := (\<lambda>p. (7, None))\<rparr>"

text \<open>
  A host on which every socket can be bound, with the results of \<open>net.ParseIP\<close> for the
  IPv6 loopback address, the IPv4 loopback address and strings that are no address; a
  sentinel configured with a bind address; and a running sentinel with three connected
  peers, one of them in the mesh of the light client finality update topic.
\<close>

definition loopback_env :: sentinel_env where
  "loopback_env =
     \<lparr>net_ParseIP = (\<lambda>a. if a = ''::1'' then [0, 0, 0, 0, 0, 0, 0, 0, 0, 0, 0, 0, 0, 0, 0, 1]
                         else if a = ''127.0.0.1'' then IPv4 127 0 0 1
                         else []),
      net_ListenUDP = (\<lambda>network ip port. None),
      enode_OpenDB = None,
      localNode_Seq = 1,
      discover_ListenV5 = None,
      connectToBootnodes = None\<rparr>"

definition sentinel_at :: "string \<Rightarrow> Sentinel" where
  "sentinel_at a =
     \<lparr>started = False, listener = None,
      cfg = \<lparr>IpAddr = a, Port = 9000, TCPPort = 9001\<rparr>,
      host_Peers = [], metadataV1 = None, subManager = None\<rparr>"

definition gossip_sentinel :: Sentinel where
  "gossip_sentinel =
     \<lparr>started = True, listener = Some (UDPv5 ''udp4'' IPv4zero 9000),
      cfg = \<lparr>IpAddr = ''127.0.0.1'', Port = 9000, TCPPort = 9001\<rparr>,
      host_Peers = [1, 2, 3], metadataV1 = None,
      subManager = Some \<lparr>subscriptions =
        [(''/eth2/4a26c58b/light_client_finality_update/ssz_snappy'',
          Some \<lparr>topic_ListPeers = [1]\<rparr>)]\<rparr>\<rparr>"

section \<open>Properties of package health\<close>

subsection \<open>Library facts\<close>

lemma json_string_plain:
  \<open>json_string ''HEALTHY'' = ''"HEALTHY"''\<close>
  \<open>json_string ''DISABLED'' = ''"DISABLED"''\<close>
  \<open>json_string ''check_block'' = ''"check_block"''\<close>
  \<open>json_string ''healthcheck_query'' = ''"healthcheck_query"''\<close>
  \<open>json_string ''min_peer_count'' = ''"min_peer_count"''\<close>
  by (simp_all add: json_string_def json_escape_def)

lemma Atoi_5: "Atoi ''5'' = Inr 5"
  by (simp add: Atoi_def ParseInt_def ParseUint_def is_digit_def digit_val_def)

lemma Atoi_range:
  assumes "Atoi s = Inr n"
  shows "- (2 ^ 63) \<le> n \<and> n < 2 ^ 63"
  using assms
  by (auto simp: Atoi_def ParseInt_def Let_def split: sum.splits num_error.splits if_splits)

lemma wrap_int64_id: "- (2 ^ 63) \<le> x \<Longrightarrow> x < 2 ^ 63 \<Longrightarrow> wrap_int64 x = x"
  by (simp add: wrap_int64_def)

subsection \<open>The two modes of the handler\<close>

lemma handler_json_mode:
  assumes "EqualFold (URL_Path r) urlPath" "Header_Get r = []"
  shows "ProcessHealthcheckIfNeeded_with ph env r =
     (case parseHealthCheckBody env (Body_ReadAll r) of
        Inl errParse \<Rightarrow>
          \<lparr>handled = True,
           response = reportHealth (Some errParse) (Some ErrCheckDisabled) (Some ErrCheckDisabled) new_writer,
           calls = []\<rparr>
      | Inr body \<Rightarrow>
          \<lparr>handled = True,
           response = reportHealth None
             (case MinPeerCount body of Some n \<Rightarrow> checkMinPeers env n | None \<Rightarrow> Some ErrCheckDisabled)
             (case BlockNumber body of Some b \<Rightarrow> checkBlockNumber env b | None \<Rightarrow> Some ErrCheckDisabled)
             new_writer,
           calls = (case MinPeerCount body of Some n \<Rightarrow> [CallCheckMinPeers n] | None \<Rightarrow> [])
                 @ (case BlockNumber body of Some b \<Rightarrow> [CallCheckBlockNumber b] | None \<Rightarrow> [])\<rparr>)"
  using assms
  by (simp add: ProcessHealthcheckIfNeeded_with_def Let_def split: sum.split option.split)

lemma header_mode:
  assumes "EqualFold (URL_Path r) urlPath" "Header_Get r \<noteq> []"
  shows "ProcessHealthcheckIfNeeded_with ph env r =
     \<lparr>handled = True,
      response =
        (case fst (ph env (healthHeader_values r)) of
           None \<Rightarrow> \<lparr>rw_status = Some 200, rw_body = ''HEALTHY''\<rparr>
         | Some e \<Rightarrow> \<lparr>rw_status = Some 500, rw_body = errorStringOrOK (Some e)\<rparr>),
      calls = snd (ph env (healthHeader_values r))\<rparr>"
  using assms
  by (simp add: ProcessHealthcheckIfNeeded_with_def Let_def new_writer_def WriteHeader_def
      Write_def StatusOK_def StatusInternalServerError_def errorStringOrOK_def
      split: option.split)

subsection \<open>The JSON report\<close>

lemma reportHealth_errors_sorted:
  "sort_key fst (map_set ''check_block'' c (map_set ''min_peer_count'' b (map_set ''healthcheck_query'' a [])))
   = [(''check_block'', c), (''healthcheck_query'', a), (''min_peer_count'', b)]"
  by (simp add: map_set_def)

lemma reportHealth_status:
  "rw_status (reportHealth eP eM eB new_writer) =
     Some (if shouldChangeStatusCode eP \<or> shouldChangeStatusCode eM \<or> shouldChangeStatusCode eB
           then 500 else 200)"
  by (simp add: reportHealth_def new_writer_def WriteHeader_def Write_def StatusOK_def
      StatusInternalServerError_def Let_def)

lemma reportHealth_body:
  \<open>rw_body (reportHealth eP eM eB new_writer) =
     ''{"check_block":'' @ json_string (errorStringOrOK eB) @
     '',"healthcheck_query":'' @ json_string (errorStringOrOK eP) @
     '',"min_peer_count":'' @ json_string (errorStringOrOK eM) @ ''}''\<close>
  by (simp add: reportHealth_def new_writer_def WriteHeader_def Write_def Let_def
      json_Marshal_def reportHealth_errors_sorted json_member_def json_string_plain)

lemma check_value_json: "check_value e (json_string (errorStringOrOK e))"
  by (simp add: check_value_def errorStringOrOK_def json_string_plain json_string_def
      json_escape_def split: option.split)

lemma handler_json_mode_checks:
  assumes "EqualFold (URL_Path r) urlPath" "Header_Get r = []"
    and "json_mode_checks env r = (eP, eM, eB)"
  shows "response (ProcessHealthcheckIfNeeded env r) = reportHealth eP eM eB new_writer
    \<and> handled (ProcessHealthcheckIfNeeded env r)"
  unfolding ProcessHealthcheckIfNeeded_def handler_json_mode [OF assms(1,2)]
  using assms(3)
  by (auto simp: json_mode_checks_def split: sum.splits)

text \<open>
  Claim C5. The report written for three results is a JSON object that maps each of the
  three check names to HEALTHY, DISABLED or a string that begins with ERROR and a colon,
  according to the result of the check, with status 200 exactly when every check that
  returned an error returned the disabled sentinel, and 500 otherwise. The response of the
  handler to a request without the health header is that report for the results of the
  three checks of the request: its body maps each check name to the value of its result,
  and its status is 200 exactly when every result that is an error is the disabled
  sentinel, and 500 otherwise.
\<close>

theorem reportHealth_json_body_and_status:
  \<open>(\<exists>vP vM vB.
      rw_body (reportHealth errParse errMinPeerCount errCheckBlock new_writer) =
        ''{"check_block":'' @ vB @ '',"healthcheck_query":'' @ vP @
        '',"min_peer_count":'' @ vM @ ''}''
      \<and> check_value errParse vP \<and> check_value errMinPeerCount vM
      \<and> check_value errCheckBlock vB)
   \<and> (rw_status (reportHealth errParse errMinPeerCount errCheckBlock new_writer) = Some 200
      \<or> rw_status (reportHealth errParse errMinPeerCount errCheckBlock new_writer) = Some 500)
   \<and> (rw_status (reportHealth errParse errMinPeerCount errCheckBlock new_writer) = Some 200
      \<longleftrightarrow> (\<forall>e \<in> {errParse, errMinPeerCount, errCheckBlock}.
             \<forall>x. e = Some x \<longrightarrow> errors_Is_disabled x))
   \<and> (EqualFold (URL_Path r) urlPath \<and> Header_Get r = []
       \<and> json_mode_checks env r = (errParse, errMinPeerCount, errCheckBlock) \<longrightarrow>
        handled (ProcessHealthcheckIfNeeded env r)
        \<and> response (ProcessHealthcheckIfNeeded env r)
            = reportHealth errParse errMinPeerCount errCheckBlock new_writer
        \<and> (\<exists>vP vM vB.
              rw_body (response (ProcessHealthcheckIfNeeded env r)) =
                ''{"check_block":'' @ vB @ '',"healthcheck_query":'' @ vP @
                '',"min_peer_count":'' @ vM @ ''}''
              \<and> check_value errParse vP \<and> check_value errMinPeerCount vM
              \<and> check_value errCheckBlock vB)
        \<and> (rw_status (response (ProcessHealthcheckIfNeeded env r)) =
              (if \<forall>e \<in> {errParse, errMinPeerCount, errCheckBlock}.
                    \<forall>x. e = Some x \<longrightarrow> errors_Is_disabled x
               then Some 200 else Some 500)))\<close>
proof -
  let ?w = "reportHealth errParse errMinPeerCount errCheckBlock new_writer"
  have A: \<open>\<exists>vP vM vB.
     rw_body ?w =
       ''{"check_block":'' @ vB @ '',"healthcheck_query":'' @ vP @
       '',"min_peer_count":'' @ vM @ ''}''
     \<and> check_value errParse vP \<and> check_value errMinPeerCount vM
     \<and> check_value errCheckBlock vB\<close>
    using reportHealth_body check_value_json by blast
  have B: \<open>rw_status ?w = Some 200 \<or> rw_status ?w = Some 500\<close>
    by (simp add: reportHealth_status)
  have C: \<open>rw_status ?w = Some 200
     \<longleftrightarrow> (\<forall>e \<in> {errParse, errMinPeerCount, errCheckBlock}.
            \<forall>x. e = Some x \<longrightarrow> errors_Is_disabled x)\<close>
    by (auto simp add: reportHealth_status shouldChangeStatusCode_def split: option.splits)
  have S: \<open>rw_status ?w =
      (if \<forall>e \<in> {errParse, errMinPeerCount, errCheckBlock}.
            \<forall>x. e = Some x \<longrightarrow> errors_Is_disabled x
       then Some 200 else Some 500)\<close>
    using B C by auto
  have D: \<open>EqualFold (URL_Path r) urlPath \<and> Header_Get r = []
       \<and> json_mode_checks env r = (errParse, errMinPeerCount, errCheckBlock) \<longrightarrow>
        handled (ProcessHealthcheckIfNeeded env r)
        \<and> response (ProcessHealthcheckIfNeeded env r) = ?w
        \<and> (\<exists>vP vM vB.
              rw_body (response (ProcessHealthcheckIfNeeded env r)) =
                ''{"check_block":'' @ vB @ '',"healthcheck_query":'' @ vP @
                '',"min_peer_count":'' @ vM @ ''}''
              \<and> check_value errParse vP \<and> check_value errMinPeerCount vM
              \<and> check_value errCheckBlock vB)
        \<and> (rw_status (response (ProcessHealthcheckIfNeeded env r)) =
              (if \<forall>e \<in> {errParse, errMinPeerCount, errCheckBlock}.
                    \<forall>x. e = Some x \<longrightarrow> errors_Is_disabled x
               then Some 200 else Some 500))\<close>
  proof
    assume a: \<open>EqualFold (URL_Path r) urlPath \<and> Header_Get r = []
       \<and> json_mode_checks env r = (errParse, errMinPeerCount, errCheckBlock)\<close>
    have h: "response (ProcessHealthcheckIfNeeded env r) = ?w
        \<and> handled (ProcessHealthcheckIfNeeded env r)"
      using handler_json_mode_checks [of r env errParse errMinPeerCount errCheckBlock] a
      by blast
    show \<open>handled (ProcessHealthcheckIfNeeded env r)
        \<and> response (ProcessHealthcheckIfNeeded env r) = ?w
        \<and> (\<exists>vP vM vB.
              rw_body (response (ProcessHealthcheckIfNeeded env r)) =
                ''{"check_block":'' @ vB @ '',"healthcheck_query":'' @ vP @
                '',"min_peer_count":'' @ vM @ ''}''
              \<and> check_value errParse vP \<and> check_value errMinPeerCount vM
              \<and> check_value errCheckBlock vB)
        \<and> (rw_status (response (ProcessHealthcheckIfNeeded env r)) =
              (if \<forall>e \<in> {errParse, errMinPeerCount, errCheckBlock}.
                    \<forall>x. e = Some x \<longrightarrow> errors_Is_disabled x
               then Some 200 else Some 500))\<close>
      using h A S by simp
  qed
  show ?thesis using A B C D by blast
qed

theorem reportHealth_json_body_and_status_witness:
  \<open>EqualFold (URL_Path min_peers_body_request) urlPath
   \<and> Header_Get min_peers_body_request = []
   \<and> json_mode_checks min_peers_body_env min_peers_body_request =
       (None, Some (ErrNew ''not enough peers: 3 (minimum 5)''), Some ErrCheckDisabled)
   \<and> rw_status (response (ProcessHealthcheckIfNeeded min_peers_body_env min_peers_body_request))
       = Some 500
   \<and> response (ProcessHealthcheckIfNeeded min_peers_body_env min_peers_body_request)
       = reportHealth None (Some (ErrNew ''not enough peers: 3 (minimum 5)''))
           (Some ErrCheckDisabled) new_writer
   \<and> rw_status (reportHealth None (Some ErrCheckDisabled) None new_writer) = Some 200\<close>
proof -
  have a: "EqualFold (URL_Path min_peers_body_request) urlPath"
    by (simp add: EqualFold_def min_peers_body_request_def urlPath_def lower_char_def)
  have b: "Header_Get min_peers_body_request = []"
    by (simp add: Header_Get_def min_peers_body_request_def)
  have c: "json_mode_checks min_peers_body_env min_peers_body_request =
       (None, Some (ErrNew ''not enough peers: 3 (minimum 5)''), Some ErrCheckDisabled)"
    by (simp add: json_mode_checks_def parseHealthCheckBody_def min_peers_body_env_def
        min_peers_body_request_def three_peers_env_def)
  note D = reportHealth_json_body_and_status
      [of None "Some (ErrNew ''not enough peers: 3 (minimum 5)'')" "Some ErrCheckDisabled"
          min_peers_body_request min_peers_body_env,
        THEN conjunct2, THEN conjunct2, THEN conjunct2, rule_format, OF conjI [OF a conjI [OF b c]]]
  have r: "response (ProcessHealthcheckIfNeeded min_peers_body_env min_peers_body_request)
       = reportHealth None (Some (ErrNew ''not enough peers: 3 (minimum 5)''))
           (Some ErrCheckDisabled) new_writer"
    using D by blast
  have st: "rw_status (response (ProcessHealthcheckIfNeeded min_peers_body_env min_peers_body_request))
       = (if \<forall>e \<in> {None, Some (ErrNew ''not enough peers: 3 (minimum 5)''), Some ErrCheckDisabled}.
                    \<forall>x. e = Some x \<longrightarrow> errors_Is_disabled x
               then Some 200 else Some 500)"
    using D by blast
  have 1: "rw_status (response (ProcessHealthcheckIfNeeded min_peers_body_env min_peers_body_request))
       = Some 500
     \<and> response (ProcessHealthcheckIfNeeded min_peers_body_env min_peers_body_request)
       = reportHealth None (Some (ErrNew ''not enough peers: 3 (minimum 5)''))
           (Some ErrCheckDisabled) new_writer"
    using r st by simp
  have 2: "rw_status (reportHealth None (Some ErrCheckDisabled) None new_writer) = Some 200"
    using reportHealth_json_body_and_status
      [of None "Some ErrCheckDisabled" None, THEN conjunct2, THEN conjunct2, THEN conjunct1]
    by auto
  show ?thesis using a b c 1 2 by blast
qed

text \<open>
  Claim C10. A request for the health path without the health header whose body cannot
  be unmarshalled (the empty body included) is answered with status 500 and a JSON body
  in which healthcheck_query is the error and min_peer_count and check_block are
  DISABLED, and no check is called.
\<close>

theorem invalid_body_reports_query_error:
  assumes "EqualFold (URL_Path r) urlPath"
    and "Header_Get r = []"
    and "Body_ReadAll r = Inr bodyBytes"
    and "json_Unmarshal env bodyBytes = Inl m"
  shows \<open>rw_status (response (ProcessHealthcheckIfNeeded env r)) = Some 500
    \<and> rw_body (response (ProcessHealthcheckIfNeeded env r)) =
        ''{"check_block":"DISABLED","healthcheck_query":"ERROR: ''
          @ concat (map json_escape m) @ ''","min_peer_count":"DISABLED"}''
    \<and> calls (ProcessHealthcheckIfNeeded env r) = []
    \<and> handled (ProcessHealthcheckIfNeeded env r)\<close>
proof -
  have p: "parseHealthCheckBody env (Body_ReadAll r) = Inl (ErrNew m)"
    using assms(3,4) by (simp add: parseHealthCheckBody_def)
  have h: "ProcessHealthcheckIfNeeded env r =
      \<lparr>handled = True,
       response = reportHealth (Some (ErrNew m)) (Some ErrCheckDisabled) (Some ErrCheckDisabled) new_writer,
       calls = []\<rparr>"
    unfolding ProcessHealthcheckIfNeeded_def
    using handler_json_mode [OF assms(1,2)] p by simp
  show ?thesis
    unfolding h
    by (simp add: reportHealth_status reportHealth_body shouldChangeStatusCode_def
        errorStringOrOK_def json_string_def json_escape_def)
qed

theorem invalid_body_reports_query_error_witness:
  \<open>EqualFold (URL_Path (health_request [])) urlPath
   \<and> Header_Get (health_request []) = []
   \<and> Body_ReadAll (health_request []) = Inr []
   \<and> json_Unmarshal three_peers_env [] = Inl ''unexpected end of JSON input''
   \<and> rw_status (response (ProcessHealthcheckIfNeeded three_peers_env (health_request [])))
       = Some 500
   \<and> rw_body (response (ProcessHealthcheckIfNeeded three_peers_env (health_request []))) =
       ''{"check_block":"DISABLED","healthcheck_query":"ERROR: unexpected end of JSON input","min_peer_count":"DISABLED"}''
   \<and> calls (ProcessHealthcheckIfNeeded three_peers_env (health_request [])) = []\<close>
proof -
  have a: "EqualFold (URL_Path (health_request [])) urlPath"
    by (simp add: EqualFold_def health_request_def urlPath_def lower_char_def)
  have b: "Header_Get (health_request []) = []"
    by (simp add: Header_Get_def health_request_def)
  have c: "Body_ReadAll (health_request []) = Inr []"
    by (simp add: health_request_def)
  have d: "json_Unmarshal three_peers_env [] = Inl ''unexpected end of JSON input''"
    by (simp add: three_peers_env_def)
  show ?thesis
    using a b c d invalid_body_reports_query_error [OF a b c d]
    by (simp add: json_escape_def)
qed

subsection \<open>Checks selected by headers\<close>

lemma min_peer_count5_header:
  assumes "ToLower h = ''min_peer_count5''"
  shows "process_header env h = (checkMinPeers env 5, [CallCheckMinPeers 5])"
  using assms
  by (simp add: process_header_def then_check_def synced_branch_def check_block_branch_def
      min_peer_count_branch_def HasPrefix_def TrimPrefix_def no_check_def Atoi_5
      uint_of_int_def)

text \<open>
  Claim C1, as the code has it. A request for the health path with the single header
  value min_peer_count5, while \<open>checkMinPeers\<close> fails for a minimum of 5, is answered
  with status 500 and a body that is the plain text of the error: ERROR, a colon, and the
  message. The body is not a JSON object.
\<close>

theorem header_min_peer_count_failure:
  assumes "EqualFold (URL_Path r) urlPath"
    and "healthHeader_values r = [h]"
    and "ToLower h = ''min_peer_count5''"
    and "checkMinPeers env 5 = Some e"
  shows "rw_status (response (ProcessHealthcheckIfNeeded env r)) = Some 500
    \<and> rw_body (response (ProcessHealthcheckIfNeeded env r)) = errorStringOrOK (Some e)
    \<and> (\<not> errors_Is_disabled e \<longrightarrow>
         rw_body (response (ProcessHealthcheckIfNeeded env r)) = ''ERROR: '' @ Error_msg e)
    \<and> calls (ProcessHealthcheckIfNeeded env r) = [CallCheckMinPeers 5]"
proof -
  have "h \<noteq> []" using assms(3) by (auto simp: ToLower_def)
  then have g: "Header_Get r \<noteq> []" using assms(2) by (simp add: Header_Get_def)
  have "ProcessHealthcheck2 env (healthHeader_values r) = (Some e, [CallCheckMinPeers 5])"
    using assms(2,4) min_peer_count5_header [OF assms(3), of env]
    by (simp add: then_check_def no_check_def)
  then show ?thesis
    unfolding ProcessHealthcheckIfNeeded_def header_mode [OF assms(1) g]
    by (simp add: errorStringOrOK_def)
qed

theorem header_min_peer_count_failure_witness:
  \<open>EqualFold (URL_Path (health_request [''min_peer_count5''])) urlPath
   \<and> ToLower ''min_peer_count5'' = ''min_peer_count5''
   \<and> checkMinPeers three_peers_env 5 = Some (ErrNew ''not enough peers: 3 (minimum 5)'')
   \<and> rw_status (response (ProcessHealthcheckIfNeeded three_peers_env
        (health_request [''min_peer_count5'']))) = Some 500
   \<and> rw_body (response (ProcessHealthcheckIfNeeded three_peers_env
        (health_request [''min_peer_count5'']))) = ''ERROR: not enough peers: 3 (minimum 5)''\<close>
proof -
  have a: "EqualFold (URL_Path (health_request [''min_peer_count5''])) urlPath"
    by (simp add: EqualFold_def health_request_def urlPath_def lower_char_def)
  have b: "healthHeader_values (health_request [''min_peer_count5'']) = [''min_peer_count5'']"
    by (simp add: health_request_def)
  have c: "ToLower ''min_peer_count5'' = ''min_peer_count5''"
    by (simp add: ToLower_def lower_char_def)
  have d: "checkMinPeers three_peers_env 5 = Some (ErrNew ''not enough peers: 3 (minimum 5)'')"
    by (simp add: three_peers_env_def)
  show ?thesis
    using a c d header_min_peer_count_failure [OF a b c d]
    by (simp add: errorStringOrOK_def)
qed

text \<open>
  Claim C1, as the specification states it, fails with three peers connected: the status
  is 500 but the body does not contain the member \<open>"min_peer_count":"ERROR: \<close>.
\<close>

theorem header_mode_body_is_not_json_counterexample:
  \<open>\<not> (rw_status (response (ProcessHealthcheckIfNeeded three_peers_env
          (health_request [''min_peer_count5'']))) = Some 500
      \<and> Contains (rw_body (response (ProcessHealthcheckIfNeeded three_peers_env
          (health_request [''min_peer_count5''])))) ''"min_peer_count":"ERROR: '')\<close>
proof -
  have a: "EqualFold (URL_Path (health_request [''min_peer_count5''])) urlPath"
    by (simp add: EqualFold_def health_request_def urlPath_def lower_char_def)
  have g: "Header_Get (health_request [''min_peer_count5'']) \<noteq> []"
    by (simp add: Header_Get_def health_request_def)
  have c: "ToLower ''min_peer_count5'' = ''min_peer_count5''"
    by (simp add: ToLower_def lower_char_def)
  have p: "ProcessHealthcheck2 three_peers_env (healthHeader_values (health_request [''min_peer_count5'']))
      = (Some (ErrNew ''not enough peers: 3 (minimum 5)''), [CallCheckMinPeers 5])"
    using min_peer_count5_header [OF c, of three_peers_env]
    by (simp add: health_request_def then_check_def no_check_def three_peers_env_def)
  have body: \<open>rw_body (response (ProcessHealthcheckIfNeeded three_peers_env
          (health_request [''min_peer_count5'']))) = ''ERROR: not enough peers: 3 (minimum 5)''\<close>
    unfolding ProcessHealthcheckIfNeeded_def header_mode [OF a g] p
    by (simp add: errorStringOrOK_def)
  show ?thesis
    unfolding body by (simp add: HasPrefix_def)
qed

lemma max_seconds_behind_header:
  assumes "ToLower h = ''max_seconds_behind'' @ ds"
  shows "process_header_v2 env h =
     (case Atoi ds of
        Inl err \<Rightarrow> (Some err, [])
      | Inr secs0 \<Rightarrow>
          processTimeCheck env
            (wrap_int64 (time_Now_Unix env - (if secs0 < 0 then 600 else secs0))))"
  using assms
  by (simp add: process_header_v2_def then_check_def synced_branch_def check_block_branch_def
      min_peer_count_branch_def max_seconds_behind_branch_def HasPrefix_def TrimPrefix_def
      no_check_def Let_def split: sum.split)

lemma ProcessHealthcheck2_v2_fails:
  assumes "h \<in> set hs" and "fst (process_header_v2 env h) \<noteq> None"
  shows "fst (ProcessHealthcheck2_v2 env hs) \<noteq> None"
  using assms
proof (induction hs)
  case Nil
  then show ?case by simp
next
  case (Cons a hs)
  show ?case
  proof (cases "fst (process_header_v2 env a)")
    case None
    then have "a \<noteq> h" using Cons.prems(2) by auto
    then have "h \<in> set hs" using Cons.prems(1) by simp
    then have "fst (ProcessHealthcheck2_v2 env hs) \<noteq> None"
      using Cons.IH Cons.prems(2) by simp
    then show ?thesis using None by (simp add: then_check_def)
  next
    case (Some e)
    then show ?thesis by (simp add: then_check_def)
  qed
qed

text \<open>
  Claim C9. For a request in header mode with a header value max_seconds_behind followed
  by a number N, where a negative N is replaced by 600: the check of that header returns
  nil exactly when the timestamp of the latest block is at most the clock minus N; when
  the timestamp is above that bound the headers are answered with an error and status
  500, and when it is not and this is the only header the status is 200. The latest block
  is one that the API returns with a timestamp of type uint64 below \<open>2^63\<close>, and the
  clock is a Unix time that is not negative.
\<close>

theorem max_seconds_behind_check:
  assumes "EqualFold (URL_Path r) urlPath"
    and "Header_Get r \<noteq> []"
    and "h \<in> set (healthHeader_values r)"
    and "ToLower h = ''max_seconds_behind'' @ ds"
    and "Atoi ds = Inr N"
    and "GetBlockByNumber env = Inr block"
    and "block ''timestamp'' = Some (U64 ts)"
    and "ts < 2 ^ 63"
    and "0 \<le> time_Now_Unix env" and "time_Now_Unix env < 2 ^ 63"
  shows "(fst (process_header_v2 env h) = None
           \<longleftrightarrow> int ts \<le> time_Now_Unix env - (if N < 0 then 600 else N))
    \<and> (int ts > time_Now_Unix env - (if N < 0 then 600 else N) \<longrightarrow>
         fst (ProcessHealthcheck2_v2 env (healthHeader_values r)) \<noteq> None
         \<and> rw_status (response (ProcessHealthcheckIfNeeded_v2 env r)) = Some 500)
    \<and> (int ts \<le> time_Now_Unix env - (if N < 0 then 600 else N)
         \<and> healthHeader_values r = [h] \<longrightarrow>
         rw_status (response (ProcessHealthcheckIfNeeded_v2 env r)) = Some 200)"
proof -
  define bound where "bound = time_Now_Unix env - (if N < 0 then 600 else N)"
  have rng: "- (2 ^ 63) \<le> N \<and> N < 2 ^ 63" using Atoi_range [OF assms(5)] .
  have b: "- (2 ^ 63) \<le> bound \<and> bound < 2 ^ 63"
    using rng assms(9,10) by (auto simp: bound_def)
  have w: "wrap_int64 bound = bound" using b by (simp add: wrap_int64_id)
  have t: "int_of_uint64 ts = int ts"
    using assms(8) by (simp add: int_of_uint64_def wrap_int64_id)
  have ph: "process_header_v2 env h = processTimeCheck env bound"
    using max_seconds_behind_header [OF assms(4), of env] assms(5) w
    by (simp add: bound_def)
  have tc: "fst (processTimeCheck env bound) = None \<longleftrightarrow> int ts \<le> bound"
    using assms(6,7) t by (auto simp: processTimeCheck_def Let_def)
  have st: "rw_status (response (ProcessHealthcheckIfNeeded_v2 env r)) =
      (if fst (ProcessHealthcheck2_v2 env (healthHeader_values r)) = None
       then Some 200 else Some 500)"
    unfolding ProcessHealthcheckIfNeeded_v2_def header_mode [OF assms(1,2)]
    by (simp split: option.split)
  have 1: "fst (process_header_v2 env h) = None \<longleftrightarrow> int ts \<le> bound"
    using ph tc by simp
  have 2: "int ts > bound \<longrightarrow>
         fst (ProcessHealthcheck2_v2 env (healthHeader_values r)) \<noteq> None
         \<and> rw_status (response (ProcessHealthcheckIfNeeded_v2 env r)) = Some 500"
  proof
    assume "int ts > bound"
    then have "fst (process_header_v2 env h) \<noteq> None" using 1 by simp
    then have "fst (ProcessHealthcheck2_v2 env (healthHeader_values r)) \<noteq> None"
      using ProcessHealthcheck2_v2_fails [OF assms(3)] by simp
    then show "fst (ProcessHealthcheck2_v2 env (healthHeader_values r)) \<noteq> None
         \<and> rw_status (response (ProcessHealthcheckIfNeeded_v2 env r)) = Some 500"
      using st by simp
  qed
  have 3: "int ts \<le> bound \<and> healthHeader_values r = [h] \<longrightarrow>
         rw_status (response (ProcessHealthcheckIfNeeded_v2 env r)) = Some 200"
  proof
    assume a: "int ts \<le> bound \<and> healthHeader_values r = [h]"
    then have "fst (process_header_v2 env h) = None" using 1 by simp
    then have "fst (ProcessHealthcheck2_v2 env [h]) = None"
      by (simp add: then_check_def no_check_def)
    then show "rw_status (response (ProcessHealthcheckIfNeeded_v2 env r)) = Some 200"
      using st a by simp
  qed
  show ?thesis
    unfolding bound_def [symmetric] using 1 2 3 by blast
qed

theorem max_seconds_behind_check_witness:
  "EqualFold (URL_Path (health_request [''max_seconds_behind60''])) urlPath
   \<and> Atoi ''60'' = Inr 60
   \<and> fst (process_header_v2 (latest_block_env 1700000000 1700000100)
        ''max_seconds_behind60'') = None
   \<and> rw_status (response (ProcessHealthcheckIfNeeded_v2 (latest_block_env 1700000000 1700000100)
        (health_request [''max_seconds_behind60'']))) = Some 200
   \<and> Atoi ''200'' = Inr 200
   \<and> rw_status (response (ProcessHealthcheckIfNeeded_v2 (latest_block_env 1700000000 1700000100)
        (health_request [''synced'', ''max_seconds_behind200'']))) = Some 500"
proof -
  let ?env = "latest_block_env 1700000000 1700000100"
  have a: "EqualFold (URL_Path (health_request hs)) urlPath" for hs
    by (simp add: EqualFold_def health_request_def urlPath_def lower_char_def)
  have b: "Header_Get (health_request [''max_seconds_behind60'']) \<noteq> []"
    "Header_Get (health_request [''synced'', ''max_seconds_behind200'']) \<noteq> []"
    by (simp_all add: health_request_def Header_Get_def)
  have m: "''max_seconds_behind60'' \<in> set (healthHeader_values (health_request [''max_seconds_behind60'']))"
    "''max_seconds_behind200'' \<in> set (healthHeader_values (health_request [''synced'', ''max_seconds_behind200'']))"
    by (simp_all add: health_request_def)
  have c: "ToLower ''max_seconds_behind60'' = ''max_seconds_behind'' @ ''60''"
    "ToLower ''max_seconds_behind200'' = ''max_seconds_behind'' @ ''200''"
    by (simp_all add: ToLower_def lower_char_def)
  have d: "Atoi ''60'' = Inr 60" "Atoi ''200'' = Inr 200"
    by (simp_all add: Atoi_def ParseInt_def ParseUint_def is_digit_def digit_val_def)
  have e: "GetBlockByNumber ?env = Inr [''timestamp'' \<mapsto> U64 1700000000]"
    by (simp add: latest_block_env_def)
  have f: "[''timestamp'' \<mapsto> U64 1700000000] ''timestamp'' = Some (U64 1700000000)"
    by simp
  have g: "(1700000000::nat) < 2 ^ 63" by simp
  have h: "0 \<le> time_Now_Unix ?env" "time_Now_Unix ?env < 2 ^ 63"
    by (simp_all add: latest_block_env_def)
  have n: "time_Now_Unix ?env = 1700000100" by (simp add: latest_block_env_def)
  have 1: "fst (process_header_v2 ?env ''max_seconds_behind60'') = None
     \<and> rw_status (response (ProcessHealthcheckIfNeeded_v2 ?env
        (health_request [''max_seconds_behind60'']))) = Some 200"
    using max_seconds_behind_check [OF a b(1) m(1) c(1) d(1) e f g h] n
    by (simp add: health_request_def)
  have 2: "rw_status (response (ProcessHealthcheckIfNeeded_v2 ?env
        (health_request [''synced'', ''max_seconds_behind200'']))) = Some 500"
    using max_seconds_behind_check [OF a b(2) m(2) c(2) d(2) e f g h] n
    by simp
  show ?thesis using a d 1 2 by blast
qed

section \<open>Properties of package sentinel\<close>

subsection \<open>The outbound ping\<close>

lemma pingRequest_open:
  assumes "connectToRandomPeer env = Inr peer" "host_NewStream env peer = None"
  shows "pingRequest env = NewStream peer # ping_exchange env peer \<lparr>Id = 1\<rparr> @ [StreamClose]"
  using assms by (simp add: pingRequest_def)

lemma ping_exchange_no_close: "StreamClose \<notin> set (ping_exchange env peer p)"
  by (auto simp: ping_exchange_def Let_def split: prod.splits option.splits sum.splits)

lemma ping_exchange_written:
  assumes "sc_WritePacket env p = (8, None)"
  shows "ping_exchange env peer p =
     [WritePacket p, CloseWrite]
       @ (case stream_CloseWrite env of
            Some m \<Rightarrow> [LogWarn ''fail close ping request write ''] | None \<Rightarrow> [])
       @ [LogInfoSent peer, ReadByte]
       @ (case snd (sc_ReadByte env) of
            Some m \<Rightarrow> [LogWarn ''fail read response code''] | None \<Rightarrow> [])
       @ (if fst (sc_ReadByte env) = 1 then
            (case sc_Decode env of
               Inl m \<Rightarrow> [Decode, LogWarn ''fail decode ping response'']
             | Inr q \<Rightarrow> [Decode, LogInfoResp peer 1 (Id q)])
          else [LogInfoResp peer (fst (sc_ReadByte env)) 0])"
  using assms
  by (simp add: ping_exchange_def Let_def split: sum.split)

lemma ping_exchange_not_written:
  assumes "sc_WritePacket env p \<noteq> (8, None)"
  shows "ReadByte \<notin> set (ping_exchange env peer p) \<and> Decode \<notin> set (ping_exchange env peer p)"
  using assms
  by (cases "sc_WritePacket env p") (auto simp: ping_exchange_def split: option.splits)

text \<open>
  Claim C2, as the code has it. Once the request is written with size 8, the response
  frame is decoded exactly when the status byte read is 1; with status 1 and a peer that
  echoes the request the response logged carries the sequence number 1 that was sent;
  with any other status, 0 included, nothing is decoded and the response logged carries
  sequence number 0.
\<close>

theorem ping_decodes_on_status_one:
  assumes "connectToRandomPeer env = Inr peer"
    and "host_NewStream env peer = None"
    and "sc_WritePacket env \<lparr>Id = 1\<rparr> = (8, None)"
  shows "(Decode \<in> set (pingRequest env) \<longleftrightarrow> fst (sc_ReadByte env) = 1)
    \<and> (fst (sc_ReadByte env) = 1 \<and> sc_Decode env = Inr \<lparr>Id = 1\<rparr> \<longrightarrow>
         LogInfoResp peer 1 1 \<in> set (pingRequest env))
    \<and> (fst (sc_ReadByte env) \<noteq> 1 \<longrightarrow>
         LogInfoResp peer (fst (sc_ReadByte env)) 0 \<in> set (pingRequest env))"
  unfolding pingRequest_open [OF assms(1,2)] ping_exchange_written [OF assms(3)]
  by (auto split: option.splits sum.splits)

theorem ping_decodes_on_status_one_witness:
  "connectToRandomPeer (echo_peer 1) = Inr 7
   \<and> host_NewStream (echo_peer 1) 7 = None
   \<and> sc_WritePacket (echo_peer 1) \<lparr>Id = 1\<rparr> = (8, None)
   \<and> Decode \<in> set (pingRequest (echo_peer 1))
   \<and> LogInfoResp 7 1 1 \<in> set (pingRequest (echo_peer 1))"
proof -
  have a: "connectToRandomPeer (echo_peer 1) = Inr 7" by (simp add: echo_peer_def)
  have b: "host_NewStream (echo_peer 1) 7 = None" by (simp add: echo_peer_def)
  have c: "sc_WritePacket (echo_peer 1) \<lparr>Id = 1\<rparr> = (8, None)" by (simp add: echo_peer_def)
  show ?thesis
    using a b c ping_decodes_on_status_one [OF a b c] by (simp add: echo_peer_def)
qed

text \<open>
  Claim C2, as the specification states it, fails for a peer that answers with status 0
  and echoes the request: the frame is not decoded and the sequence number observed is 0,
  not 1.
\<close>

theorem ping_status_zero_not_decoded_counterexample:
  "fst (sc_ReadByte (echo_peer 0)) = 0
   \<and> sc_Decode (echo_peer 0) = Inr \<lparr>Id = 1\<rparr>
   \<and> pingRequest (echo_peer 0) =
       [NewStream 7, WritePacket \<lparr>Id = 1\<rparr>, CloseWrite, LogInfoSent 7, ReadByte,
        LogInfoResp 7 0 0, StreamClose]
   \<and> Decode \<notin> set (pingRequest (echo_peer 0))
   \<and> LogInfoResp 7 0 1 \<notin> set (pingRequest (echo_peer 0))"
  by (simp add: pingRequest_def ping_exchange_def echo_peer_def Let_def)

text \<open>
  Claim C7. The ping written is the one with sequence number 1, a single 64-bit
  number. When the write reports no error and a size other than 8 the exchange ends with
  a warning and no byte of a response is read; the status byte is read exactly when the
  write succeeded with 8 bytes, exactly once, and before any decoding.
\<close>

theorem ping_size_gate_and_status_byte:
  assumes "connectToRandomPeer env = Inr peer"
    and "host_NewStream env peer = None"
  shows "WritePacket \<lparr>Id = 1\<rparr> \<in> set (pingRequest env)
    \<and> (snd (sc_WritePacket env \<lparr>Id = 1\<rparr>) = None
         \<and> fst (sc_WritePacket env \<lparr>Id = 1\<rparr>) \<noteq> 8 \<longrightarrow>
           pingRequest env =
             [NewStream peer, WritePacket \<lparr>Id = 1\<rparr>, LogWarn ''wrong ping packet size'',
              StreamClose])
    \<and> (ReadByte \<in> set (pingRequest env) \<longleftrightarrow> sc_WritePacket env \<lparr>Id = 1\<rparr> = (8, None))
    \<and> (sc_WritePacket env \<lparr>Id = 1\<rparr> = (8, None) \<longrightarrow>
          (\<exists>before after.
             pingRequest env = before @ [ReadByte] @ after
             \<and> ReadByte \<notin> set before \<and> Decode \<notin> set before
             \<and> ReadByte \<notin> set after))"
proof (intro conjI impI)
  show "WritePacket \<lparr>Id = 1\<rparr> \<in> set (pingRequest env)"
    unfolding pingRequest_open [OF assms(1,2)]
    by (cases "sc_WritePacket env \<lparr>Id = 1\<rparr>")
      (simp add: ping_exchange_def Let_def split: sum.split option.split)
next
  assume "snd (sc_WritePacket env \<lparr>Id = 1\<rparr>) = None
         \<and> fst (sc_WritePacket env \<lparr>Id = 1\<rparr>) \<noteq> 8"
  then show "pingRequest env =
      [NewStream peer, WritePacket \<lparr>Id = 1\<rparr>, LogWarn ''wrong ping packet size'', StreamClose]"
    unfolding pingRequest_open [OF assms(1,2)]
    by (cases "sc_WritePacket env \<lparr>Id = 1\<rparr>") (simp add: ping_exchange_def)
next
  show "ReadByte \<in> set (pingRequest env) \<longleftrightarrow> sc_WritePacket env \<lparr>Id = 1\<rparr> = (8, None)"
  proof (cases "sc_WritePacket env \<lparr>Id = 1\<rparr> = (8, None)")
    case True
    then show ?thesis
      unfolding pingRequest_open [OF assms(1,2)]
      using ping_exchange_written [of env "\<lparr>Id = 1\<rparr>" peer] by simp
  next
    case False
    then show ?thesis
      unfolding pingRequest_open [OF assms(1,2)]
      using ping_exchange_not_written [of env "\<lparr>Id = 1\<rparr>" peer] by simp
  qed
next
  assume w: "sc_WritePacket env \<lparr>Id = 1\<rparr> = (8, None)"
  let ?before = "[NewStream peer, WritePacket \<lparr>Id = 1\<rparr>, CloseWrite]
       @ (case stream_CloseWrite env of
            Some m \<Rightarrow> [LogWarn ''fail close ping request write ''] | None \<Rightarrow> [])
       @ [LogInfoSent peer]"
  let ?after = "(case snd (sc_ReadByte env) of
            Some m \<Rightarrow> [LogWarn ''fail read response code''] | None \<Rightarrow> [])
       @ (if fst (sc_ReadByte env) = 1 then
            (case sc_Decode env of
               Inl m \<Rightarrow> [Decode, LogWarn ''fail decode ping response'']
             | Inr q \<Rightarrow> [Decode, LogInfoResp peer 1 (Id q)])
          else [LogInfoResp peer (fst (sc_ReadByte env)) 0]) @ [StreamClose]"
  have 1: "pingRequest env = ?before @ [ReadByte] @ ?after"
    unfolding pingRequest_open [OF assms(1,2)] ping_exchange_written [OF w] by simp
  have 2: "ReadByte \<notin> set ?before \<and> Decode \<notin> set ?before"
    by (simp split: option.split)
  have 3: "ReadByte \<notin> set ?after"
    by (simp split: option.split sum.split)
  show "\<exists>before after.
             pingRequest env = before @ [ReadByte] @ after
             \<and> ReadByte \<notin> set before \<and> Decode \<notin> set before
             \<and> ReadByte \<notin> set after"
    using 1 2 3 by blast
qed

theorem ping_size_gate_and_status_byte_witness:
  "connectToRandomPeer short_write_peer = Inr 7
   \<and> host_NewStream short_write_peer 7 = None
   \<and> sc_WritePacket short_write_peer \<lparr>Id = 1\<rparr> = (7, None)
   \<and> pingRequest short_write_peer =
        [NewStream 7, WritePacket \<lparr>Id = 1\<rparr>, LogWarn ''wrong ping packet size'', StreamClose]
   \<and> ReadByte \<notin> set (pingRequest short_write_peer)
   \<and> sc_WritePacket (echo_peer 1) \<lparr>Id = 1\<rparr> = (8, None)
   \<and> ReadByte \<in> set (pingRequest (echo_peer 1))"
proof -
  have a: "connectToRandomPeer short_write_peer = Inr 7"
    and b: "host_NewStream short_write_peer 7 = None"
    and c: "sc_WritePacket short_write_peer \<lparr>Id = 1\<rparr> = (7, None)"
    by (simp_all add: short_write_peer_def echo_peer_def)
  have a': "connectToRandomPeer (echo_peer 1) = Inr 7"
    and b': "host_NewStream (echo_peer 1) 7 = None"
    and c': "sc_WritePacket (echo_peer 1) \<lparr>Id = 1\<rparr> = (8, None)"
    by (simp_all add: echo_peer_def)
  have 1: "pingRequest short_write_peer =
        [NewStream 7, WritePacket \<lparr>Id = 1\<rparr>, LogWarn ''wrong ping packet size'', StreamClose]
      \<and> ReadByte \<notin> set (pingRequest short_write_peer)"
    using ping_size_gate_and_status_byte [OF a b] c by simp
  have 2: "ReadByte \<in> set (pingRequest (echo_peer 1))"
    using ping_size_gate_and_status_byte [OF a' b'] c' by simp
  show ?thesis using a b c c' 1 2 by blast
qed

text \<open>
  Claim C8. Once the stream is open it is closed exactly once, as the last effect of the
  ping, on every path: whatever the write, the status read and the decoding return.
\<close>

theorem ping_stream_closed_on_every_path:
  assumes "connectToRandomPeer env = Inr peer"
    and "host_NewStream env peer = None"
  shows "last (pingRequest env) = StreamClose
    \<and> count_list (pingRequest env) StreamClose = 1
    \<and> hd (pingRequest env) = NewStream peer"
proof -
  have c: "count_list (ping_exchange env peer \<lparr>Id = 1\<rparr>) StreamClose = 0"
    using ping_exchange_no_close [of env peer "\<lparr>Id = 1\<rparr>"] by (simp add: count_list_0_iff)
  show ?thesis
    unfolding pingRequest_open [OF assms] using c by simp
qed

theorem ping_stream_closed_on_every_path_witness:
  "connectToRandomPeer (echo_peer 1) = Inr 7
   \<and> host_NewStream (echo_peer 1) 7 = None
   \<and> last (pingRequest (echo_peer 1)) = StreamClose
   \<and> count_list (pingRequest (echo_peer 1)) StreamClose = 1"
proof -
  have a: "connectToRandomPeer (echo_peer 1) = Inr 7"
    and b: "host_NewStream (echo_peer 1) 7 = None"
    by (simp_all add: echo_peer_def)
  show ?thesis
    using a b ping_stream_closed_on_every_path [OF a b] by simp
qed

subsection \<open>Validation of the bind address\<close>

lemma createListener_rejects:
  assumes "To4 (net_ParseIP env (IpAddr (cfg s))) = []"
  shows "createListener env s =
     (Inl (ErrNew (''IPV4 address not provided instead '' @ IpAddr (cfg s) @ '' was provided'')),
      s, [])"
  using assms by (simp add: createListener_def Let_def)

lemma createListener_binds:
  assumes "To4 (net_ParseIP env (IpAddr (cfg s))) \<noteq> []"
  shows "\<exists>rest. snd (snd (createListener env s)) =
           EvListenUDP ''udp4'' IPv4zero (Port (cfg s)) # rest"
  using assms
  by (simp add: createListener_def Let_def createLocalNode_def split: option.split)

lemma Start_propagates:
  assumes "createListener env s = (Inl err, s1, evs)"
  shows "Start env s =
     (Some (ErrWrap (''failed creating sentinel listener err='' @ Error_msg err) err),
      s1\<lparr>listener := None\<rparr>,
      (if started s then [EvLogWarn ''Sentinel already running''] else []) @ evs)"
  using assms by (simp add: Start_def Let_def)

lemma To4_loopback4: "To4 (IPv4 127 0 0 1) = [127, 0, 0, 1]"
  by (simp add: To4_def IPv4_def v4InV6Prefix_def isZeros_def)

lemma To4_loopback6: "To4 ([0, 0, 0, 0, 0, 0, 0, 0, 0, 0, 0, 0, 0, 0, 0, 1]) = []"
  by (simp add: To4_def isZeros_def)

lemma To16_loopback6: "To16 ([0, 0, 0, 0, 0, 0, 0, 0, 0, 0, 0, 0, 0, 0, 0, 1]) = [0, 0, 0, 0, 0, 0, 0, 0, 0, 0, 0, 0, 0, 0, 0, 1]"
  by (simp add: To16_def)

text \<open>
  Claim C3, as the code has it. When the configured address has a 4-byte form,
  \<open>createListener\<close> goes on to bind a udp4 socket on the configured port; when it has
  none (an IPv6 address that is not IPv4-mapped, or a string that is no address) it
  returns an error before anything is bound and \<open>Start\<close> returns that error wrapped.
  Whenever \<open>createListener\<close> fails, \<open>Start\<close> fails, does not connect to the boot
  nodes, does not start listening for peers and leaves the gossip manager unset.
\<close>

theorem createListener_requires_ipv4:
  "(To4 (net_ParseIP env (IpAddr (cfg s))) \<noteq> [] \<longrightarrow>
      (\<exists>rest. snd (snd (createListener env s)) =
         EvListenUDP ''udp4'' IPv4zero (Port (cfg s)) # rest))
   \<and> (To4 (net_ParseIP env (IpAddr (cfg s))) = [] \<longrightarrow>
        (\<exists>err. createListener env s = (Inl err, s, [])
           \<and> Start env s =
               (Some (ErrWrap (''failed creating sentinel listener err='' @ Error_msg err) err),
                s\<lparr>listener := None\<rparr>,
                (if started s then [EvLogWarn ''Sentinel already running''] else []))))
   \<and> (\<forall>err. fst (createListener env s) = Inl err \<longrightarrow>
        fst (Start env s) =
          Some (ErrWrap (''failed creating sentinel listener err='' @ Error_msg err) err)
        \<and> EvConnectToBootnodes \<notin> set (snd (snd (Start env s)))
        \<and> EvGoListenForPeers \<notin> set (snd (snd (Start env s)))
        \<and> subManager (fst (snd (Start env s))) = subManager s
        \<and> listener (fst (snd (Start env s))) = None)"
proof -
  have 1: "To4 (net_ParseIP env (IpAddr (cfg s))) \<noteq> [] \<longrightarrow>
      (\<exists>rest. snd (snd (createListener env s)) =
         EvListenUDP ''udp4'' IPv4zero (Port (cfg s)) # rest)"
    using createListener_binds by blast
  have 2: "To4 (net_ParseIP env (IpAddr (cfg s))) = [] \<longrightarrow>
        (\<exists>err. createListener env s = (Inl err, s, [])
           \<and> Start env s =
               (Some (ErrWrap (''failed creating sentinel listener err='' @ Error_msg err) err),
                s\<lparr>listener := None\<rparr>,
                (if started s then [EvLogWarn ''Sentinel already running''] else [])))"
  proof
    assume a: "To4 (net_ParseIP env (IpAddr (cfg s))) = []"
    show "\<exists>err. createListener env s = (Inl err, s, [])
           \<and> Start env s =
               (Some (ErrWrap (''failed creating sentinel listener err='' @ Error_msg err) err),
                s\<lparr>listener := None\<rparr>,
                (if started s then [EvLogWarn ''Sentinel already running''] else []))"
      using createListener_rejects [OF a] Start_propagates [OF createListener_rejects [OF a]]
      by simp
  qed
  have 3: "\<forall>err. fst (createListener env s) = Inl err \<longrightarrow>
        fst (Start env s) =
          Some (ErrWrap (''failed creating sentinel listener err='' @ Error_msg err) err)
        \<and> EvConnectToBootnodes \<notin> set (snd (snd (Start env s)))
        \<and> EvGoListenForPeers \<notin> set (snd (snd (Start env s)))
        \<and> subManager (fst (snd (Start env s))) = subManager s
        \<and> listener (fst (snd (Start env s))) = None"
  proof (intro allI impI)
    fix err
    assume e: "fst (createListener env s) = Inl err"
    obtain s1 evs where c: "createListener env s = (Inl err, s1, evs)"
      using e by (cases "createListener env s") auto
    have sub: "subManager s1 = subManager s"
      using c by (auto simp: createListener_def Let_def createLocalNode_def
          split: if_splits option.splits prod.splits)
    have ev: "EvConnectToBootnodes \<notin> set evs \<and> EvGoListenForPeers \<notin> set evs"
      using c by (auto simp: createListener_def Let_def createLocalNode_def
          split: if_splits option.splits prod.splits)
    show "fst (Start env s) =
          Some (ErrWrap (''failed creating sentinel listener err='' @ Error_msg err) err)
        \<and> EvConnectToBootnodes \<notin> set (snd (snd (Start env s)))
        \<and> EvGoListenForPeers \<notin> set (snd (snd (Start env s)))
        \<and> subManager (fst (snd (Start env s))) = subManager s
        \<and> listener (fst (snd (Start env s))) = None"
      unfolding Start_propagates [OF c] using sub ev by simp
  qed
  show ?thesis using 1 2 3 by blast
qed

theorem createListener_requires_ipv4_witness:
  "To4 (net_ParseIP loopback_env (IpAddr (cfg (sentinel_at ''127.0.0.1'')))) \<noteq> []
   \<and> (\<exists>rest. snd (snd (createListener loopback_env (sentinel_at ''127.0.0.1''))) =
         EvListenUDP ''udp4'' IPv4zero 9000 # rest)
   \<and> To4 (net_ParseIP loopback_env (IpAddr (cfg (sentinel_at ''not an address'')))) = []
   \<and> fst (Start loopback_env (sentinel_at ''not an address'')) =
       Some (ErrWrap
         ''failed creating sentinel listener err=IPV4 address not provided instead not an address was provided''
         (ErrNew ''IPV4 address not provided instead not an address was provided''))"
proof -
  have a: "To4 (net_ParseIP loopback_env (IpAddr (cfg (sentinel_at ''127.0.0.1'')))) \<noteq> []"
    by (simp add: loopback_env_def sentinel_at_def To4_loopback4)
  have b: "To4 (net_ParseIP loopback_env (IpAddr (cfg (sentinel_at ''not an address'')))) = []"
    by (simp add: loopback_env_def sentinel_at_def To4_def)
  have c: "fst (createListener loopback_env (sentinel_at ''not an address'')) =
      Inl (ErrNew ''IPV4 address not provided instead not an address was provided'')"
    using createListener_rejects [OF b] by (simp add: sentinel_at_def)
  from createListener_requires_ipv4 [of loopback_env "sentinel_at ''127.0.0.1''"] a
  have 1: "\<exists>rest. snd (snd (createListener loopback_env (sentinel_at ''127.0.0.1''))) =
         EvListenUDP ''udp4'' IPv4zero 9000 # rest"
    by (simp add: sentinel_at_def)
  from createListener_requires_ipv4 [of loopback_env "sentinel_at ''not an address''"] c
  have 2: "fst (Start loopback_env (sentinel_at ''not an address'')) =
       Some (ErrWrap
         ''failed creating sentinel listener err=IPV4 address not provided instead not an address was provided''
         (ErrNew ''IPV4 address not provided instead not an address was provided''))"
    by simp
  show ?thesis using a b 1 2 by blast
qed

text \<open>
  Claim C3, as the specification states it, fails for the IPv6 loopback address: it has a
  16-byte form and no 4-byte form, and \<open>createListener\<close> returns an error with nothing
  bound.
\<close>

theorem createListener_ipv6_rejected_counterexample:
  "To16 (net_ParseIP loopback_env (IpAddr (cfg (sentinel_at ''::1'')))) \<noteq> []
   \<and> To4 (net_ParseIP loopback_env (IpAddr (cfg (sentinel_at ''::1'')))) = []
   \<and> createListener loopback_env (sentinel_at ''::1'') =
       (Inl (ErrNew ''IPV4 address not provided instead ::1 was provided''),
        sentinel_at ''::1'', [])"
proof -
  have a: "To4 (net_ParseIP loopback_env (IpAddr (cfg (sentinel_at ''::1'')))) = []"
    by (simp add: loopback_env_def sentinel_at_def To4_loopback6)
  have b: "To16 (net_ParseIP loopback_env (IpAddr (cfg (sentinel_at ''::1'')))) \<noteq> []"
    by (simp add: loopback_env_def sentinel_at_def To16_loopback6)
  show ?thesis
    using a b createListener_rejects [OF a] by (simp add: sentinel_at_def)
qed

subsection \<open>The peer count\<close>

lemma find_sub_last:
  "find_sub name subs sub =
     (if matching_subs name subs = [] then sub else snd (last (matching_subs name subs)))"
  by (induction subs arbitrary: sub) (auto simp: matching_subs_def)

text \<open>
  Claim C6, as the code has it. With a gossip manager set, \<open>GetPeersCount\<close> returns the
  number of peers of the topic of the last subscription visited whose topic name contains
  the name of the light client finality update topic, and the number of peers connected
  to the host when there is no such subscription or it is nil.
\<close>

theorem GetPeersCount_counts_topic_peers:
  assumes "subManager s = Some m"
  shows "(matching_subs name (subscriptions m) = [] \<longrightarrow>
            GetPeersCount name s = Inr (length (host_Peers s)))
    \<and> (\<forall>sub. matching_subs name (subscriptions m) \<noteq> []
          \<and> snd (last (matching_subs name (subscriptions m))) = Some sub \<longrightarrow>
            GetPeersCount name s = Inr (length (topic_ListPeers sub)))
    \<and> (matching_subs name (subscriptions m) \<noteq> []
          \<and> snd (last (matching_subs name (subscriptions m))) = None \<longrightarrow>
            GetPeersCount name s = Inr (length (host_Peers s)))"
  using assms by (simp add: GetPeersCount_def find_sub_last)

theorem GetPeersCount_counts_topic_peers_witness:
  "subManager gossip_sentinel = Some \<lparr>subscriptions =
        [(''/eth2/4a26c58b/light_client_finality_update/ssz_snappy'',
          Some \<lparr>topic_ListPeers = [1]\<rparr>)]\<rparr>
   \<and> GetPeersCount ''light_client_finality_update'' gossip_sentinel = Inr 1
   \<and> GetPeersCount ''no such topic'' gossip_sentinel = Inr 3"
proof -
  have a: "subManager gossip_sentinel = Some \<lparr>subscriptions =
        [(''/eth2/4a26c58b/light_client_finality_update/ssz_snappy'',
          Some \<lparr>topic_ListPeers = [1]\<rparr>)]\<rparr>"
    by (simp add: gossip_sentinel_def)
  have m: "matching_subs ''light_client_finality_update''
        [(''/eth2/4a26c58b/light_client_finality_update/ssz_snappy'',
          Some \<lparr>topic_ListPeers = [1]\<rparr>)] =
        [(''/eth2/4a26c58b/light_client_finality_update/ssz_snappy'',
          Some \<lparr>topic_ListPeers = [1]\<rparr>)]"
    by (simp add: matching_subs_def HasPrefix_def)
  have n: "matching_subs ''no such topic''
        [(''/eth2/4a26c58b/light_client_finality_update/ssz_snappy'',
          Some \<lparr>topic_ListPeers = [1::nat]\<rparr>)] = []"
    by (simp add: matching_subs_def HasPrefix_def)
  have 1: "GetPeersCount ''light_client_finality_update'' gossip_sentinel = Inr 1"
    using GetPeersCount_counts_topic_peers [OF a, of "''light_client_finality_update''"] m
    by simp
  have 2: "GetPeersCount ''no such topic'' gossip_sentinel = Inr 3"
    using GetPeersCount_counts_topic_peers [OF a, of "''no such topic''"] n
    by (simp add: gossip_sentinel_def)
  show ?thesis using a 1 2 by blast
qed

text \<open>
  Claim C6, as the specification states it, fails for a node with three connected peers
  of which one is in the mesh of the topic: the count returned is 1.
\<close>

theorem GetPeersCount_not_connected_peers_counterexample:
  "length (host_Peers gossip_sentinel) = 3
   \<and> GetPeersCount ''light_client_finality_update'' gossip_sentinel = Inr 1
   \<and> GetPeersCount ''light_client_finality_update'' gossip_sentinel
       \<noteq> Inr (length (host_Peers gossip_sentinel))"
  by (simp add: GetPeersCount_def gossip_sentinel_def HasPrefix_def)

end
